theory Spec2Isabelle
  imports Main
begin

section \<open>Regular expressions of the pattern registry\<close>

text \<open>
  The scrubber (\<^verbatim>\<open>src/utils/scrub.ts\<close>) and the cleanup utility
  (\<^verbatim>\<open>src/utils/cleanup.ts\<close>) are written in terms of JavaScript regular
  expression literals. The constructs those literals use are embedded as a datatype and
  given the backtracking semantics of the language standard: a matcher returns every way
  in which the pattern can match from a position, in the order in which the backtracking
  engine tries them, so that the head of the list is the match the engine reports.

  A string is the sequence of its UTF-16 code units, as in the language, each code unit
  an integer; \<open>js\<close> turns a literal into that form.
\<close>

type_synonym jstring = "int list"

definition js :: "string \<Rightarrow> jstring" where
  "js cs = map of_char cs"

definition ch :: "char \<Rightarrow> int" where
  "ch c = of_char c"

type_synonym range = "int \<times> int"

datatype regex =
    Eps
  | Class bool "range list"
  | Dot
  | WordB
  | Bol
  | Eol
  | Seq regex regex
  | Alt regex regex
  | Rep nat "nat option" regex
  | Group nat regex

text \<open>
  \<open>Class neg rs\<close> is a bracket class (negated when \<open>neg\<close>), \<open>Dot\<close> is \<^verbatim>\<open>.\<close>,
  \<open>WordB\<close> is \<^verbatim>\<open>\b\<close>, \<open>Bol\<close> and \<open>Eol\<close> are \<^verbatim>\<open>^\<close> and \<^verbatim>\<open>$\<close>
  (no multiline flag), \<open>Rep m n r\<close> is the greedy quantifier \<^verbatim>\<open>{m,n}\<close>
  (\<open>None\<close> for no upper bound) and \<open>Group k r\<close> is the \<open>k\<close>-th capturing group.
\<close>

type_synonym caps = "nat \<rightharpoonup> (nat \<times> nat)"
type_synonym mstate = "nat \<times> caps"

definition in_ranges :: "range list \<Rightarrow> int \<Rightarrow> bool" where
  "in_ranges rs c = list_ex (\<lambda>(lo, hi). lo \<le> c \<and> c \<le> hi) rs"

text \<open>
  Case folding of the \<^verbatim>\<open>i\<close> flag (without \<^verbatim>\<open>u\<close>) on ASCII: \<^verbatim>\<open>a\<close>-\<^verbatim>\<open>z\<close> fold
  to \<^verbatim>\<open>A\<close>-\<^verbatim>\<open>Z\<close>. The standard never folds a code unit from 128 on to an ASCII
  one, so for a pattern whose classes and literals are ASCII, as the one
  case-insensitive pattern of the registry is, nothing else is needed.
\<close>

definition canonicalize :: "int \<Rightarrow> int" where
  "canonicalize c = (if 97 \<le> c \<and> c \<le> 122 then c - 32 else c)"

definition uncanon :: "int \<Rightarrow> int" where
  "uncanon c = (if 65 \<le> c \<and> c \<le> 90 then c + 32 else c)"

definition class_match :: "bool \<Rightarrow> bool \<Rightarrow> range list \<Rightarrow> int \<Rightarrow> bool" where
  "class_match ic neg rs c =
     (let hit = (if ic then in_ranges rs c \<or> in_ranges rs (canonicalize c)
                              \<or> in_ranges rs (uncanon (canonicalize c))
                 else in_ranges rs c)
      in if neg then \<not> hit else hit)"

text \<open>\<^verbatim>\<open>[a-zA-Z0-9_]\<close>\<close>

definition is_word_char :: "int \<Rightarrow> bool" where
  "is_word_char c = in_ranges [(97, 122), (65, 90), (48, 57), (95, 95)] c"

definition is_word_at :: "jstring \<Rightarrow> nat \<Rightarrow> bool" where
  "is_word_at s i = (i < length s \<and> is_word_char (s ! i))"

definition word_boundary :: "jstring \<Rightarrow> nat \<Rightarrow> bool" where
  "word_boundary s i = ((0 < i \<and> is_word_at s (i - 1)) \<noteq> is_word_at s i)"

text \<open>Line feed, carriage return, line separator, paragraph separator.\<close>

definition line_terminator :: "int \<Rightarrow> bool" where
  "line_terminator c = (c = 10 \<or> c = 13 \<or> c = 0x2028 \<or> c = 0x2029)"

primrec groups_of :: "regex \<Rightarrow> nat list" where
  "groups_of Eps = []"
| "groups_of (Class neg rs) = []"
| "groups_of Dot = []"
| "groups_of WordB = []"
| "groups_of Bol = []"
| "groups_of Eol = []"
| "groups_of (Seq a b) = groups_of a @ groups_of b"
| "groups_of (Alt a b) = groups_of a @ groups_of b"
| "groups_of (Rep mn mx r) = groups_of r"
| "groups_of (Group n r) = n # groups_of r"

definition clear_caps :: "nat list \<Rightarrow> mstate \<Rightarrow> mstate" where
  "clear_caps ks st = (fst st, (\<lambda>k. if k \<in> set ks then None else snd st k))"

definition set_cap :: "nat \<Rightarrow> nat \<Rightarrow> mstate \<Rightarrow> mstate" where
  "set_cap n i st = (fst st, (snd st)(n \<mapsto> (i, fst st)))"

text \<open>
  \<open>rmatch r ic s st\<close> lists the states in which \<open>r\<close> can finish when started in state
  \<open>st\<close> of text \<open>s\<close> (\<open>ic\<close> is the \<^verbatim>\<open>i\<close> flag), most preferred first.

  The quantifier \<open>rep\<close>: as long as the upper bound allows, try one more iteration of
  the body first (greedy) and, once the lower bound is met, fall back to stopping here.
  The captures of the body are cleared before each iteration. An iteration that consumes
  nothing after the lower bound is met is rejected, as the standard prescribes; a matcher
  never moves backwards or past the end of the text.
\<close>

function rmatch :: "regex \<Rightarrow> bool \<Rightarrow> jstring \<Rightarrow> mstate \<Rightarrow> mstate list"
  and rep :: "regex \<Rightarrow> bool \<Rightarrow> jstring \<Rightarrow> nat \<Rightarrow> nat option \<Rightarrow> mstate \<Rightarrow> mstate list"
  and rep_each :: "regex \<Rightarrow> bool \<Rightarrow> jstring \<Rightarrow> nat \<Rightarrow> nat option \<Rightarrow> mstate \<Rightarrow> mstate list \<Rightarrow> mstate list"
where
  "rmatch Eps ic s st = [st]"
| "rmatch (Class neg rs) ic s st =
     (if fst st < length s \<and> class_match ic neg rs (s ! fst st)
      then [(Suc (fst st), snd st)] else [])"
| "rmatch Dot ic s st =
     (if fst st < length s \<and> \<not> line_terminator (s ! fst st)
      then [(Suc (fst st), snd st)] else [])"
| "rmatch WordB ic s st = (if word_boundary s (fst st) then [st] else [])"
| "rmatch Bol ic s st = (if fst st = 0 then [st] else [])"
| "rmatch Eol ic s st = (if fst st = length s then [st] else [])"
| "rmatch (Seq a b) ic s st = concat (map (rmatch b ic s) (rmatch a ic s st))"
| "rmatch (Alt a b) ic s st = rmatch a ic s st @ rmatch b ic s st"
| "rmatch (Rep mn mx r) ic s st = rep r ic s mn mx st"
| "rmatch (Group n r) ic s st = map (set_cap n (fst st)) (rmatch r ic s st)"
| "rep r ic s mn mx st =
     (if mx = Some 0 then [st]
      else if mn = 0
        then rep_each r ic s mn mx st (rmatch r ic s (clear_caps (groups_of r) st)) @ [st]
        else rep_each r ic s mn mx st (rmatch r ic s (clear_caps (groups_of r) st)))"
| "rep_each r ic s mn mx st [] = []"
| "rep_each r ic s mn mx st (st' # sts) =
     (if mn = 0 \<and> \<not> (fst st < fst st' \<and> fst st' \<le> length s) then []
      else rep r ic s (mn - 1) (map_option (\<lambda>k. k - 1) mx) st')
     @ rep_each r ic s mn mx st sts"
  by pat_completeness auto
termination
  by (relation "measures [
        \<lambda>x. case x of Inl (r, _) \<Rightarrow> 2 * size r
                     | Inr (Inl (r, _)) \<Rightarrow> 2 * size r + 1
                     | Inr (Inr (r, _)) \<Rightarrow> 2 * size r + 1,
        \<lambda>x. case x of Inl _ \<Rightarrow> 0
                     | Inr (Inl (r, ic, s, mn, _)) \<Rightarrow> mn
                     | Inr (Inr (r, ic, s, mn, _)) \<Rightarrow> mn,
        \<lambda>x. case x of Inl _ \<Rightarrow> 0
                     | Inr (Inl (r, ic, s, mn, mx, st)) \<Rightarrow> length s - fst st
                     | Inr (Inr (r, ic, s, mn, mx, st, sts)) \<Rightarrow> length s - fst st,
        \<lambda>x. case x of Inl _ \<Rightarrow> 0
                     | Inr (Inl _) \<Rightarrow> 1
                     | Inr (Inr _) \<Rightarrow> 0,
        \<lambda>x. case x of Inl _ \<Rightarrow> 0
                     | Inr (Inl _) \<Rightarrow> 0
                     | Inr (Inr (r, ic, s, mn, mx, st, sts)) \<Rightarrow> length sts]")
    auto

text \<open>A regular expression object: the pattern and the two flags the sources use.\<close>

record regexp =
  source :: regex
  global :: bool
  ignoreCase :: bool

definition exec_at :: "regexp \<Rightarrow> jstring \<Rightarrow> nat \<Rightarrow> mstate option" where
  "exec_at re s i =
     (case rmatch (source re) (ignoreCase re) s (i, Map.empty) of
        [] \<Rightarrow> None
      | st # _ \<Rightarrow> Some st)"

text \<open>
  The scan shared by \<^verbatim>\<open>String.prototype.replace\<close> and \<^verbatim>\<open>String.prototype.match\<close>
  with a global pattern: find the leftmost match at or after \<open>i\<close>, record it, and go on
  from its end (one further when the match is empty).
\<close>

function scan :: "regexp \<Rightarrow> jstring \<Rightarrow> nat \<Rightarrow> (nat \<times> mstate) list" where
  "scan re s i =
     (if length s < i then []
      else case exec_at re s i of
             None \<Rightarrow> scan re s (Suc i)
           | Some st \<Rightarrow> (i, st) # scan re s (if fst st \<le> i then Suc i else fst st))"
  by pat_completeness auto
termination
  by (relation "measure (\<lambda>(re, s, i). Suc (length s) - i)") auto

declare scan.simps [simp del]

definition found :: "regexp \<Rightarrow> jstring \<Rightarrow> (nat \<times> mstate) list" where
  "found re s = (if global re then scan re s 0 else take 1 (scan re s 0))"

definition is_digit :: "int \<Rightarrow> bool" where
  "is_digit c = (48 \<le> c \<and> c \<le> 57)"

definition digit_val :: "int \<Rightarrow> nat" where
  "digit_val c = nat (c - 48)"

definition capture_text :: "jstring \<Rightarrow> caps \<Rightarrow> nat \<Rightarrow> jstring" where
  "capture_text s c k = (case c k of None \<Rightarrow> [] | Some (a, b) \<Rightarrow> take (b - a) (drop a s))"

text \<open>
  The replacement text of one match (the standard's \<^verbatim>\<open>GetSubstitution\<close>): \<open>s\<close> is the
  text, \<open>a\<close> and \<open>b\<close> delimit the match, \<open>c\<close> holds the captures and \<open>m\<close> is the number
  of capturing groups of the pattern. In the template, 36 is the dollar sign, 96 the
  backquote, 38 the ampersand and 39 the apostrophe.
\<close>

fun get_substitution :: "jstring \<Rightarrow> nat \<Rightarrow> nat \<Rightarrow> caps \<Rightarrow> nat \<Rightarrow> jstring \<Rightarrow> jstring" where
  "get_substitution s a b c m [] = []"
| "get_substitution s a b c m [x] = [x]"
| "get_substitution s a b c m (x # y # t) =
     (if x \<noteq> 36 then x # get_substitution s a b c m (y # t)
      else if y = 36 then 36 # get_substitution s a b c m t
      else if y = 96 then take a s @ get_substitution s a b c m t
      else if y = 38 then take (b - a) (drop a s) @ get_substitution s a b c m t
      else if y = 39 then drop b s @ get_substitution s a b c m t
      else if is_digit y then
        (case t of
           z # t' \<Rightarrow>
             if is_digit z \<and> 10 * digit_val y + digit_val z \<le> m then
               (if 1 \<le> 10 * digit_val y + digit_val z
                then capture_text s c (10 * digit_val y + digit_val z)
                       @ get_substitution s a b c m t'
                else x # y # z # get_substitution s a b c m t')
             else if 1 \<le> digit_val y \<and> digit_val y \<le> m
               then capture_text s c (digit_val y) @ get_substitution s a b c m t
               else x # y # get_substitution s a b c m t
         | [] \<Rightarrow>
             if 1 \<le> digit_val y \<and> digit_val y \<le> m
               then capture_text s c (digit_val y)
               else [x, y])
      else x # get_substitution s a b c m (y # t))"

text \<open>The text with each recorded match replaced by its substitution.\<close>

fun splice :: "jstring \<Rightarrow> jstring \<Rightarrow> nat \<Rightarrow> nat \<Rightarrow> (nat \<times> mstate) list \<Rightarrow> jstring" where
  "splice s tpl m p [] = drop p s"
| "splice s tpl m p ((a, (b, c)) # ms) =
     (if p \<le> a
      then take (a - p) (drop p s) @ get_substitution s a b c m tpl @ splice s tpl m b ms
      else splice s tpl m p ms)"

text \<open>\<^verbatim>\<open>s.replace(re, tpl)\<close>\<close>

definition replace :: "jstring \<Rightarrow> regexp \<Rightarrow> jstring \<Rightarrow> jstring" where
  "replace s re tpl = splice s tpl (length (groups_of (source re))) 0 (found re s)"


text \<open>\<^verbatim>\<open>re.test(s)\<close> for a pattern without the global flag.\<close>

definition test :: "regexp \<Rightarrow> jstring \<Rightarrow> bool" where
  "test re s = (scan re s 0 \<noteq> [])"

section \<open>The scrubber\<close>

subsection \<open>Patterns\<close>

definition lit :: "char \<Rightarrow> regex" where
  "lit c = Class False [(ch c, ch c)]"

definition one :: "char \<Rightarrow> range" where
  "one c = (ch c, ch c)"

definition seqs :: "regex list \<Rightarrow> regex" where
  "seqs rs = foldr Seq rs Eps"

definition str :: "string \<Rightarrow> regex" where
  "str cs = seqs (map lit cs)"

definition opt :: "regex \<Rightarrow> regex" where
  "opt r = Rep 0 (Some 1) r"

definition plus :: "regex \<Rightarrow> regex" where
  "plus r = Rep 1 None r"

definition star :: "regex \<Rightarrow> regex" where
  "star r = Rep 0 None r"

definition times :: "nat \<Rightarrow> regex \<Rightarrow> regex" where
  "times n r = Rep n (Some n) r"

definition upper :: range where
  "upper = (ch CHR ''A'', ch CHR ''Z'')"

definition lower :: range where
  "lower = (ch CHR ''a'', ch CHR ''z'')"

definition digits :: range where
  "digits = (ch CHR ''0'', ch CHR ''9'')"

text \<open>\<^verbatim>\<open>\s\<close>: the white space and line terminator code units.\<close>

definition space :: "range list" where
  "space = [(0x09, 0x0D), (0x20, 0x20), (0xA0, 0xA0), (0x1680, 0x1680), (0x2000, 0x200A),
            (0x2028, 0x2029), (0x202F, 0x202F), (0x205F, 0x205F), (0x3000, 0x3000),
            (0xFEFF, 0xFEFF)]"

definition digit :: regex where
  "digit = Class False [digits]"

definition sep :: regex where
  "sep = Class False (one CHR ''-'' # one CHR ''.'' # space)"

text \<open>\<^verbatim>\<open>/\b[A-Za-z0-9._%+-]+@[A-Za-z0-9.-]+\.[A-Z|a-z]{2,}\b/g\<close>\<close>

definition email :: regexp where
  "email = \<lparr>source = seqs [WordB,
       plus (Class False ([upper, lower, digits] @ map one ''._%+-'')),
       lit CHR ''@'',
       plus (Class False ([upper, lower, digits] @ map one ''.-'')),
       lit CHR ''.'',
       Rep 2 None (Class False [upper, one CHR ''|'', lower]),
       WordB],
     global = True, ignoreCase = False\<rparr>"

text \<open>\<^verbatim>\<open>/(\+?1[-.\s]?)?\(?([0-9]{3})\)?[-.\s]?([0-9]{3})[-.\s]?([0-9]{4})/g\<close>\<close>

definition phone :: regexp where
  "phone = \<lparr>source = seqs [
       opt (Group 1 (seqs [opt (lit CHR ''+''), lit CHR ''1'', opt sep])),
       opt (lit CHR ''(''),
       Group 2 (times 3 digit),
       opt (lit CHR '')''),
       opt sep,
       Group 3 (times 3 digit),
       opt sep,
       Group 4 (times 4 digit)],
     global = True, ignoreCase = False\<rparr>"

text \<open>\<^verbatim>\<open>/\b\d{3}-?\d{2}-?\d{4}\b/g\<close>\<close>

definition ssn :: regexp where
  "ssn = \<lparr>source = seqs [WordB, times 3 digit, opt (lit CHR ''-''), times 2 digit,
       opt (lit CHR ''-''), times 4 digit, WordB],
     global = True, ignoreCase = False\<rparr>"

text \<open>\<^verbatim>\<open>/\b(?:\d{4}[-\s]?){3}\d{4}\b/g\<close>\<close>

definition creditCard :: regexp where
  "creditCard = \<lparr>source = seqs [WordB,
       times 3 (seqs [times 4 digit, opt (Class False (one CHR ''-'' # space))]),
       times 4 digit, WordB],
     global = True, ignoreCase = False\<rparr>"

text \<open>\<^verbatim>\<open>/\b(?:[0-9]{1,3}\.){3}[0-9]{1,3}\b/g\<close>\<close>

definition ipAddress :: regexp where
  "ipAddress = \<lparr>source = seqs [WordB,
       times 3 (seqs [Rep 1 (Some 3) digit, lit CHR ''.'']),
       Rep 1 (Some 3) digit, WordB],
     global = True, ignoreCase = False\<rparr>"

text \<open>\<^verbatim>\<open>/\b(?:api[_-]?key|secret[_-]?key|access[_-]?token)\s*[:=]\s*['\"]?([a-zA-Z0-9_-]+)['\"]?/gi\<close>\<close>

definition quote :: regex where
  "quote = Class False [(39, 39), (34, 34)]"

definition apiKey :: regexp where
  "apiKey = \<lparr>source = seqs [WordB,
       Alt (seqs [str ''api'', opt (Class False (map one ''_-'')), str ''key''])
        (Alt (seqs [str ''secret'', opt (Class False (map one ''_-'')), str ''key''])
             (seqs [str ''access'', opt (Class False (map one ''_-'')), str ''token''])),
       star (Class False space),
       Class False (map one '':=''),
       star (Class False space),
       opt quote,
       Group 1 (plus (Class False ([lower, upper, digits] @ map one ''_-''))),
       opt quote],
     global = True, ignoreCase = True\<rparr>"

text \<open>\<^verbatim>\<open>/\bghp_[a-zA-Z0-9]{36}\b/g\<close>\<close>

definition githubToken :: regexp where
  "githubToken = \<lparr>source = seqs [WordB, str ''ghp_'',
       times 36 (Class False [lower, upper, digits]), WordB],
     global = True, ignoreCase = False\<rparr>"

text \<open>\<^verbatim>\<open>/\b(?:sk|pk)_(?:test|live)_[a-zA-Z0-9]{24,}\b/g\<close>\<close>

definition stripeKey :: regexp where
  "stripeKey = \<lparr>source = seqs [WordB, Alt (str ''sk'') (str ''pk''), lit CHR ''_'',
       Alt (str ''test'') (str ''live''), lit CHR ''_'',
       Rep 24 None (Class False [lower, upper, digits]), WordB],
     global = True, ignoreCase = False\<rparr>"

subsection \<open>Configuration\<close>

text \<open>\<^verbatim>\<open>ScrubConfig\<close>: every field is optional.\<close>

record ScrubConfig =
  maskEmails :: "bool option"
  maskPhones :: "bool option"
  maskSSNs :: "bool option"
  maskCreditCards :: "bool option"
  maskIPAddresses :: "bool option"
  maskCustomPatterns :: "regexp list option"
  placeholder :: "jstring option"

text \<open>\<^verbatim>\<open>Required<ScrubConfig>\<close>, the field \<^verbatim>\<open>config\<close> of a \<^verbatim>\<open>PIIScrubber\<close>.\<close>

record PIIScrubber =
  cfg_maskEmails :: bool
  cfg_maskPhones :: bool
  cfg_maskSSNs :: bool
  cfg_maskCreditCards :: bool
  cfg_maskIPAddresses :: bool
  cfg_maskCustomPatterns :: "regexp list"
  cfg_placeholder :: jstring

definition nullish :: "'a option \<Rightarrow> 'a \<Rightarrow> 'a" where
  "nullish x d = (case x of None \<Rightarrow> d | Some v \<Rightarrow> v)"

definition empty_config :: ScrubConfig where
  "empty_config = \<lparr>maskEmails = None, maskPhones = None, maskSSNs = None,
     maskCreditCards = None, maskIPAddresses = None, maskCustomPatterns = None,
     placeholder = None\<rparr>"

definition new_PIIScrubber :: "ScrubConfig \<Rightarrow> PIIScrubber" where
  "new_PIIScrubber config = \<lparr>
     cfg_maskEmails = nullish (maskEmails config) True,
     cfg_maskPhones = nullish (maskPhones config) True,
     cfg_maskSSNs = nullish (maskSSNs config) True,
     cfg_maskCreditCards = nullish (maskCreditCards config) True,
     cfg_maskIPAddresses = nullish (maskIPAddresses config) False,
     cfg_maskCustomPatterns = nullish (maskCustomPatterns config) [],
     cfg_placeholder = nullish (placeholder config) (js ''[REDACTED]'')\<rparr>"

subsection \<open>Scrubbing a string\<close>

definition scrubString :: "PIIScrubber \<Rightarrow> jstring \<Rightarrow> jstring" where
  "scrubString this text =
     (let scrubbed = text;
          scrubbed = (if cfg_maskEmails this
                      then replace scrubbed email (cfg_placeholder this) else scrubbed);
          scrubbed = (if cfg_maskPhones this
                      then replace scrubbed phone (cfg_placeholder this) else scrubbed);
          scrubbed = (if cfg_maskSSNs this
                      then replace scrubbed ssn (cfg_placeholder this) else scrubbed);
          scrubbed = (if cfg_maskCreditCards this
                      then replace scrubbed creditCard (cfg_placeholder this) else scrubbed);
          scrubbed = (if cfg_maskIPAddresses this
                      then replace scrubbed ipAddress (cfg_placeholder this) else scrubbed);
          scrubbed = replace scrubbed apiKey (js ''$1: '' @ cfg_placeholder this);
          scrubbed = replace scrubbed githubToken (cfg_placeholder this);
          scrubbed = replace scrubbed stripeKey (cfg_placeholder this)
      in foldl (\<lambda>scrubbed pattern. replace scrubbed pattern (cfg_placeholder this))
           scrubbed (cfg_maskCustomPatterns this))"

subsection \<open>Scrubbing a hierarchical value\<close>

text \<open>
  The values the pipeline handles. An object is the list of its own enumerable entries
  in the order \<^verbatim>\<open>Object.entries\<close> yields them. A number is never inspected by the
  scrubber and only tested for zero by the classifier.
\<close>

datatype json =
    JNull
  | JUndefined
  | JBool bool
  | JNum int
  | JStr jstring
  | JArr "json list"
  | JObj "(jstring \<times> json) list"

text \<open>\<^verbatim>\<open>o[k] = v\<close>: an existing property keeps its place, a new one goes last.\<close>

fun obj_set :: "(jstring \<times> 'v) list \<Rightarrow> jstring \<Rightarrow> 'v \<Rightarrow> (jstring \<times> 'v) list" where
  "obj_set [] k v = [(k, v)]"
| "obj_set ((k', v') # kvs) k v =
     (if k' = k then (k, v) # kvs else (k', v') # obj_set kvs k v)"

fun scrubObject :: "PIIScrubber \<Rightarrow> json \<Rightarrow> json"
and scrubItems :: "PIIScrubber \<Rightarrow> json list \<Rightarrow> json list"
and scrubEntries :: "PIIScrubber \<Rightarrow> (jstring \<times> json) list \<Rightarrow> (jstring \<times> json) list \<Rightarrow> (jstring \<times> json) list"
where
  "scrubObject this JNull = JNull"
| "scrubObject this JUndefined = JUndefined"
| "scrubObject this (JStr s) = JStr (scrubString this s)"
| "scrubObject this (JNum n) = JNum n"
| "scrubObject this (JBool b) = JBool b"
| "scrubObject this (JArr items) = JArr (scrubItems this items)"
| "scrubObject this (JObj entries) = JObj (scrubEntries this [] entries)"
| "scrubItems this [] = []"
| "scrubItems this (item # items) = scrubObject this item # scrubItems this items"
| "scrubEntries this scrubbed [] = scrubbed"
| "scrubEntries this scrubbed ((key, val) # entries) =
     scrubEntries this (obj_set scrubbed (scrubString this key) (scrubObject this val)) entries"

subsection \<open>Statistics and entry points\<close>



text \<open>The exported convenience functions; an absent \<^verbatim>\<open>config\<close> argument is \<open>None\<close>.\<close>

definition scrubPII :: "json \<Rightarrow> ScrubConfig option \<Rightarrow> json" where
  "scrubPII data config = scrubObject (new_PIIScrubber (nullish config empty_config)) data"

definition scrubString_fn :: "jstring \<Rightarrow> ScrubConfig option \<Rightarrow> jstring" where
  "scrubString_fn text config = scrubString (new_PIIScrubber (nullish config empty_config)) text"

section \<open>Reading values\<close>

datatype js_error = TypeError

text \<open>
  \<^verbatim>\<open>v[k]\<close>, for a property name \<open>k\<close> that no built-in prototype defines: reading
  from \<^verbatim>\<open>null\<close> or \<^verbatim>\<open>undefined\<close> throws, an object yields its own property, and
  anything else yields \<^verbatim>\<open>undefined\<close>.
\<close>

fun get_prop :: "json \<Rightarrow> jstring \<Rightarrow> js_error + json" where
  "get_prop JNull k = Inl TypeError"
| "get_prop JUndefined k = Inl TypeError"
| "get_prop (JObj entries) k =
     (case map_of entries k of None \<Rightarrow> Inr JUndefined | Some v \<Rightarrow> Inr v)"
| "get_prop v k = Inr JUndefined"

fun truthy :: "json \<Rightarrow> bool" where
  "truthy JNull = False"
| "truthy JUndefined = False"
| "truthy (JBool b) = b"
| "truthy (JNum n) = (n \<noteq> 0)"
| "truthy (JStr s) = (s \<noteq> [])"
| "truthy (JArr items) = True"
| "truthy (JObj entries) = True"

fun typeof :: "json \<Rightarrow> jstring" where
  "typeof JNull = js ''object''"
| "typeof JUndefined = js ''undefined''"
| "typeof (JBool b) = js ''boolean''"
| "typeof (JNum n) = js ''number''"
| "typeof (JStr s) = js ''string''"
| "typeof (JArr items) = js ''object''"
| "typeof (JObj entries) = js ''object''"

text \<open>\<^verbatim>\<open>typeof v === 'object' && v !== null\<close>\<close>

fun is_object :: "json \<Rightarrow> bool" where
  "is_object (JArr items) = True"
| "is_object (JObj entries) = True"
| "is_object v = False"

section \<open>The pipeline step that scrubs\<close>

text \<open>
  \<^verbatim>\<open>Generate.run\<close>, step 3 and 4 (\<^verbatim>\<open>src/commands/generate.ts\<close>): the merged data
  and what the step reads from the value \<^verbatim>\<open>scrubPII\<close> returns, namely
  \<^verbatim>\<open>scrubResult.stats.itemsFound\<close> and \<^verbatim>\<open>scrubResult.stats.bytesReduced\<close> for the
  log line; step 5 and 6 then read \<^verbatim>\<open>scrubResult.scrubbedData\<close>.
\<close>

definition mergedData :: "jstring \<Rightarrow> jstring \<Rightarrow> jstring \<Rightarrow> json \<Rightarrow> json \<Rightarrow> json" where
  "mergedData flags_email flags_githubOrg timestamp githubData stripeData = JObj [
     (js ''email'', JStr flags_email),
     (js ''githubOrg'', JStr flags_githubOrg),
     (js ''exportTimestamp'', JStr timestamp),
     (js ''github'', githubData),
     (js ''stripe'', stripeData)]"

definition scrub_step :: "json \<Rightarrow> js_error + (json \<times> json \<times> json)" where
  "scrub_step merged =
     (let scrubResult = scrubPII merged None in
      case get_prop scrubResult (js ''stats'') of
        Inl e \<Rightarrow> Inl e
      | Inr stats \<Rightarrow>
         (case get_prop stats (js ''itemsFound'') of
            Inl e \<Rightarrow> Inl e
          | Inr itemsFound \<Rightarrow>
             (case get_prop stats (js ''bytesReduced'') of
                Inl e \<Rightarrow> Inl e
              | Inr bytesReduced \<Rightarrow> Inr (scrubResult, itemsFound, bytesReduced))))"

section \<open>The classifier\<close>

subsection \<open>Field paths\<close>

text \<open>\<^verbatim>\<open>prefix.split('.').length\<close>: one more than the number of dots (code unit 46).\<close>

definition split_length :: "jstring \<Rightarrow> nat" where
  "split_length prefix = Suc (length (filter (\<lambda>c. c = 46) prefix))"

fun extractFieldPaths :: "json \<Rightarrow> jstring \<Rightarrow> jstring list"
and extractEntries :: "(jstring \<times> json) list \<Rightarrow> jstring \<Rightarrow> jstring list"
where
  "extractFieldPaths JNull prefix = []"
| "extractFieldPaths JUndefined prefix = []"
| "extractFieldPaths (JObj entries) prefix = extractEntries entries prefix"
| "extractFieldPaths (JArr []) prefix = []"
| "extractFieldPaths (JArr (first # items)) prefix =
     (let fieldPath = prefix @ js ''[0]'' in
      fieldPath # (if is_object first then extractFieldPaths first fieldPath else []))"
| "extractFieldPaths (JBool b) prefix = []"
| "extractFieldPaths (JNum n) prefix = []"
| "extractFieldPaths (JStr s) prefix = []"
| "extractEntries [] prefix = []"
| "extractEntries ((key, val) # entries) prefix =
     (let fieldPath = (if prefix \<noteq> [] then prefix @ js ''.'' @ key else key) in
      fieldPath #
      (if is_object val \<and> split_length prefix < 3
       then extractFieldPaths val fieldPath else [])
      @ extractEntries entries prefix)"

subsection \<open>The structural sample\<close>

fun createDataSample :: "json \<Rightarrow> nat \<Rightarrow> nat \<Rightarrow> json"
and sampleEntries :: "(jstring \<times> json) list \<Rightarrow> nat \<Rightarrow> nat \<Rightarrow> (jstring \<times> json) list \<Rightarrow> nat \<Rightarrow> (jstring \<times> json) list"
where
  "createDataSample obj maxDepth currentDepth =
     (if currentDepth \<ge> maxDepth \<or> obj = JNull \<or> obj = JUndefined then JStr (typeof obj)
      else case obj of
             JArr [] \<Rightarrow> JArr []
           | JArr (first # _) \<Rightarrow> JArr [createDataSample first maxDepth (currentDepth + 1)]
           | JObj entries \<Rightarrow> JObj (sampleEntries entries maxDepth currentDepth [] 0)
           | _ \<Rightarrow> JStr (typeof obj))"
| "sampleEntries [] maxDepth currentDepth sample count = sample"
| "sampleEntries ((key, val) # entries) maxDepth currentDepth sample count =
     (if count \<ge> 5 then sample
      else sampleEntries entries maxDepth currentDepth
             (obj_set sample key (createDataSample val maxDepth (currentDepth + 1)))
             (count + 1))"

subsection \<open>Classification\<close>

text \<open>
  The request handed to the reasoning service: the field paths and the sample (the
  instruction prompt, model name, temperature and token limit are constants). The
  service either fails or answers with a content that may be absent; \<^verbatim>\<open>JSON.parse\<close>
  is a parameter that fails (\<open>None\<close>) on text that is not JSON.
\<close>

record request =
  req_fields :: "jstring list"
  req_sampleData :: json

datatype response = Rejected | Content "jstring option"

datatype cause = ServiceFailed | NoResponse | ParseFailed | TypeErrorThrown

datatype classify_error = ClassificationFailed cause

record summary =
  totalFields :: nat
  articlesFound :: "json list"
  highSensitivityFields :: nat
  processingTime :: int

record ClassificationResult =
  classifications :: "json list"
  summary :: summary

text \<open>The five attributes the filter requires of a record \<open>c\<close>; reading from
  \<^verbatim>\<open>null\<close> or \<^verbatim>\<open>undefined\<close> throws.\<close>

definition required :: "jstring list" where
  "required = [js ''field'', js ''article'', js ''reasoning'', js ''dataType'',
               js ''sensitivity'']"

fun has_all :: "json \<Rightarrow> jstring list \<Rightarrow> js_error + bool" where
  "has_all c [] = Inr True"
| "has_all c (k # ks) =
     (case get_prop c k of
        Inl e \<Rightarrow> Inl e
      | Inr v \<Rightarrow> if truthy v then has_all c ks else Inr False)"

fun filter_valid :: "json list \<Rightarrow> js_error + json list" where
  "filter_valid [] = Inr []"
| "filter_valid (c # cs) =
     (case has_all c required of
        Inl e \<Rightarrow> Inl e
      | Inr keep \<Rightarrow>
         (case filter_valid cs of
            Inl e \<Rightarrow> Inl e
          | Inr rest \<Rightarrow> Inr (if keep then c # rest else rest)))"

text \<open>Membership in a \<^verbatim>\<open>Set\<close>: primitives by value, arrays and objects by identity,
  and no two values of a parsed response are the same array or object.\<close>

fun same_value :: "json \<Rightarrow> json \<Rightarrow> bool" where
  "same_value (JArr xs) w = False"
| "same_value (JObj es) w = False"
| "same_value v w = (v = w)"

fun set_add :: "json list \<Rightarrow> json \<Rightarrow> json list" where
  "set_add [] v = [v]"
| "set_add (w # ws) v = (if same_value w v then w # ws else w # set_add ws v)"

definition the_prop :: "json \<Rightarrow> jstring \<Rightarrow> json" where
  "the_prop c k = (case get_prop c k of Inl e \<Rightarrow> JUndefined | Inr v \<Rightarrow> v)"

definition classifyData ::
  "(request \<Rightarrow> response) \<Rightarrow> (jstring \<Rightarrow> json option) \<Rightarrow> int \<Rightarrow> int \<Rightarrow> json
     \<Rightarrow> request list \<times> (classify_error + ClassificationResult)" where
  "classifyData service parse startTime endTime scrubbedData =
     (let fieldPaths = extractFieldPaths scrubbedData [] in
      if length fieldPaths = 0 then
        ([], Inr \<lparr>classifications = [],
                  summary = \<lparr>totalFields = 0, articlesFound = [],
                              highSensitivityFields = 0,
                              processingTime = endTime - startTime\<rparr>\<rparr>)
      else
        let dataStructure = \<lparr>req_fields = fieldPaths,
                               req_sampleData = createDataSample scrubbedData 2 0\<rparr> in
        case service dataStructure of
          Rejected \<Rightarrow> ([dataStructure], Inl (ClassificationFailed ServiceFailed))
        | Content None \<Rightarrow> ([dataStructure], Inl (ClassificationFailed NoResponse))
        | Content (Some content) \<Rightarrow>
           if content = [] then ([dataStructure], Inl (ClassificationFailed NoResponse))
           else
            (case parse content of
               None \<Rightarrow> ([dataStructure], Inl (ClassificationFailed ParseFailed))
             | Some (JArr cs) \<Rightarrow>
                (case filter_valid cs of
                   Inl e \<Rightarrow> ([dataStructure], Inl (ClassificationFailed TypeErrorThrown))
                 | Inr validClassifications \<Rightarrow>
                    ([dataStructure],
                     Inr \<lparr>classifications = validClassifications,
                          summary = \<lparr>
                            totalFields = length fieldPaths,
                            articlesFound =
                              foldl set_add [] (map (\<lambda>c. the_prop c (js ''article''))
                                                   validClassifications),
                            highSensitivityFields =
                              length (filter (\<lambda>c. the_prop c (js ''sensitivity'') = JStr (js ''high''))
                                        validClassifications),
                            processingTime = endTime - startTime\<rparr>\<rparr>))
             | Some _ \<Rightarrow> ([dataStructure], Inl (ClassificationFailed TypeErrorThrown))))"

section \<open>The stream processor\<close>










section \<open>Cleanup of old evidence files\<close>

text \<open>
  \<^verbatim>\<open>FileCleanup.cleanupOldFiles\<close> (\<^verbatim>\<open>src/utils/cleanup.ts\<close>). The target directory is
  missing, unreadable, or lists its entries by name; an entry records its modification
  time in milliseconds, its size, and whether \<^verbatim>\<open>statSync\<close> and \<^verbatim>\<open>unlinkSync\<close> succeed
  on it.
\<close>

record entry =
  mtime :: int
  bytes :: nat
  stat_ok :: bool
  unlink_ok :: bool

datatype directory = Missing | Unreadable | Listing "(jstring \<times> entry) list"

datatype cleanup_error = ProcessFailed jstring | ScanFailed

record CleanupResult =
  filesScanned :: nat
  filesDeleted :: nat
  deletedFiles :: "jstring list"
  totalSizeFreed :: nat
  errors :: "cleanup_error list"

text \<open>\<^verbatim>\<open>/^evidence_.*\.pdf$/\<close>, \<^verbatim>\<open>/^mapping_.*\.csv$/\<close>, \<^verbatim>\<open>/^evidence_pack_.*\.zip$/\<close>\<close>

definition evidenceFilePatterns :: "regexp list" where
  "evidenceFilePatterns = [
     \<lparr>source = seqs [Bol, str ''evidence_'', star Dot, lit CHR ''.'', str ''pdf'', Eol],
      global = False, ignoreCase = False\<rparr>,
     \<lparr>source = seqs [Bol, str ''mapping_'', star Dot, lit CHR ''.'', str ''csv'', Eol],
      global = False, ignoreCase = False\<rparr>,
     \<lparr>source = seqs [Bol, str ''evidence_pack_'', star Dot, lit CHR ''.'', str ''zip'', Eol],
      global = False, ignoreCase = False\<rparr>]"

definition isEvidenceFile :: "jstring \<Rightarrow> bool" where
  "isEvidenceFile file = list_ex (\<lambda>pattern. test pattern file) evidenceFilePatterns"

definition statSync :: "(jstring \<times> entry) list \<Rightarrow> jstring \<Rightarrow> entry option" where
  "statSync dir file =
     (case map_of dir file of
        None \<Rightarrow> None
      | Some e \<Rightarrow> if stat_ok e then Some e else None)"

definition unlinkSync :: "(jstring \<times> entry) list \<Rightarrow> jstring \<Rightarrow> (jstring \<times> entry) list option" where
  "unlinkSync dir file =
     (case map_of dir file of
        None \<Rightarrow> None
      | Some e \<Rightarrow> if unlink_ok e then Some (filter (\<lambda>(name, _). name \<noteq> file) dir) else None)"

fun cleanup_loop ::
  "int \<Rightarrow> jstring list \<Rightarrow> (jstring \<times> entry) list \<Rightarrow> CleanupResult
     \<Rightarrow> CleanupResult \<times> (jstring \<times> entry) list" where
  "cleanup_loop cutoffTime [] dir result = (result, dir)"
| "cleanup_loop cutoffTime (file # files) dir result =
     (if \<not> isEvidenceFile file then cleanup_loop cutoffTime files dir result
      else
        let result = result\<lparr>filesScanned := filesScanned result + 1\<rparr> in
        case statSync dir file of
          None \<Rightarrow>
            cleanup_loop cutoffTime files dir
              (result\<lparr>errors := errors result @ [ProcessFailed file]\<rparr>)
        | Some stats \<Rightarrow>
            if mtime stats < cutoffTime then
              (case unlinkSync dir file of
                 None \<Rightarrow>
                   cleanup_loop cutoffTime files dir
                     (result\<lparr>errors := errors result @ [ProcessFailed file]\<rparr>)
               | Some dir' \<Rightarrow>
                   cleanup_loop cutoffTime files dir'
                     (result\<lparr>filesDeleted := filesDeleted result + 1,
                             deletedFiles := deletedFiles result @ [file],
                             totalSizeFreed := totalSizeFreed result + bytes stats\<rparr>))
            else cleanup_loop cutoffTime files dir result)"

definition empty_result :: CleanupResult where
  "empty_result = \<lparr>filesScanned = 0, filesDeleted = 0, deletedFiles = [],
                    totalSizeFreed = 0, errors = []\<rparr>"

definition cleanupOldFiles :: "directory \<Rightarrow> int \<Rightarrow> int \<Rightarrow> CleanupResult \<times> directory" where
  "cleanupOldFiles targetDir maxAgeHours now =
     (case targetDir of
        Missing \<Rightarrow> (empty_result, Missing)
      | Unreadable \<Rightarrow> (empty_result\<lparr>errors := [ScanFailed]\<rparr>, Unreadable)
      | Listing dir \<Rightarrow>
          (let files = map fst dir;
               cutoffTime = now - maxAgeHours * 60 * 60 * 1000;
               (result, dir') = cleanup_loop cutoffTime files dir empty_result
           in (result, Listing dir')))"

section \<open>Notions used in the properties\<close>





text \<open>The strings \<^verbatim>\<open>typeof\<close> can yield; values all of whose leaves are such strings;
  the nesting depth of a value; values whose objects have at most \<open>n\<close> entries; and a
  value with the content of every string leaf erased.\<close>

definition type_tags :: "jstring list" where
  "type_tags = [js ''object'', js ''undefined'', js ''boolean'', js ''number'', js ''string'']"

fun only_tags :: "json \<Rightarrow> bool"
and only_tags_items :: "json list \<Rightarrow> bool"
and only_tags_entries :: "(jstring \<times> json) list \<Rightarrow> bool"
where
  "only_tags (JStr s) = (s \<in> set type_tags)"
| "only_tags (JArr items) = only_tags_items items"
| "only_tags (JObj entries) = only_tags_entries entries"
| "only_tags JNull = False"
| "only_tags JUndefined = False"
| "only_tags (JBool b) = False"
| "only_tags (JNum n) = False"
| "only_tags_items [] = True"
| "only_tags_items (item # items) = (only_tags item \<and> only_tags_items items)"
| "only_tags_entries [] = True"
| "only_tags_entries ((key, val) # entries) = (only_tags val \<and> only_tags_entries entries)"

fun depth :: "json \<Rightarrow> nat"
and depth_items :: "json list \<Rightarrow> nat"
and depth_entries :: "(jstring \<times> json) list \<Rightarrow> nat"
where
  "depth (JArr items) = Suc (depth_items items)"
| "depth (JObj entries) = Suc (depth_entries entries)"
| "depth JNull = 0"
| "depth JUndefined = 0"
| "depth (JBool b) = 0"
| "depth (JNum n) = 0"
| "depth (JStr s) = 0"
| "depth_items [] = 0"
| "depth_items (item # items) = max (depth item) (depth_items items)"
| "depth_entries [] = 0"
| "depth_entries ((key, val) # entries) = max (depth val) (depth_entries entries)"

fun keys_bounded :: "nat \<Rightarrow> json \<Rightarrow> bool"
and keys_bounded_items :: "nat \<Rightarrow> json list \<Rightarrow> bool"
and keys_bounded_entries :: "nat \<Rightarrow> (jstring \<times> json) list \<Rightarrow> bool"
where
  "keys_bounded n (JArr items) = keys_bounded_items n items"
| "keys_bounded n (JObj entries) = (length entries \<le> n \<and> keys_bounded_entries n entries)"
| "keys_bounded n JNull = True"
| "keys_bounded n JUndefined = True"
| "keys_bounded n (JBool b) = True"
| "keys_bounded n (JNum k) = True"
| "keys_bounded n (JStr s) = True"
| "keys_bounded_items n [] = True"
| "keys_bounded_items n (item # items) = (keys_bounded n item \<and> keys_bounded_items n items)"
| "keys_bounded_entries n [] = True"
| "keys_bounded_entries n ((key, val) # entries) =
     (keys_bounded n val \<and> keys_bounded_entries n entries)"

fun erase :: "json \<Rightarrow> json"
and erase_items :: "json list \<Rightarrow> json list"
and erase_entries :: "(jstring \<times> json) list \<Rightarrow> (jstring \<times> json) list"
where
  "erase (JStr s) = JStr []"
| "erase (JArr items) = JArr (erase_items items)"
| "erase (JObj entries) = JObj (erase_entries entries)"
| "erase JNull = JNull"
| "erase JUndefined = JUndefined"
| "erase (JBool b) = JBool b"
| "erase (JNum n) = JNum n"
| "erase_items [] = []"
| "erase_items (item # items) = erase item # erase_items items"
| "erase_entries [] = []"
| "erase_entries ((key, val) # entries) = (key, erase val) # erase_entries entries"



text \<open>A file the cleanup can and will delete: an evidence file that can be examined,
  is older than the cutoff and can be unlinked.\<close>

definition removable :: "int \<Rightarrow> (jstring \<times> entry) list \<Rightarrow> jstring \<Rightarrow> bool" where
  "removable cutoffTime dir file =
     (isEvidenceFile file \<and>
      (case map_of dir file of
         None \<Rightarrow> False
       | Some e \<Rightarrow> stat_ok e \<and> mtime e < cutoffTime \<and> unlink_ok e))"

text \<open>Example: a directory with an old evidence file, an old file of another kind and a
  recent evidence file, and the result of cleaning it.\<close>

definition ex_dir :: "(jstring \<times> entry) list" where
  "ex_dir = [
     (js ''evidence_a.pdf'', \<lparr>mtime = 0, bytes = 1760, stat_ok = True, unlink_ok = True\<rparr>),
     (js ''notes.txt'', \<lparr>mtime = 0, bytes = 10, stat_ok = True, unlink_ok = True\<rparr>),
     (js ''mapping_b.csv'', \<lparr>mtime = 50000000, bytes = 230, stat_ok = True, unlink_ok = True\<rparr>)]"

definition ex_result :: CleanupResult where
  "ex_result = \<lparr>filesScanned = 2, filesDeleted = 1, deletedFiles = [js ''evidence_a.pdf''],
                 totalSizeFreed = 1760, errors = []\<rparr>"

text \<open>
  The passes \<^verbatim>\<open>scrubString\<close> makes under a configuration, in order, each with its
  replacement template; running a list of passes over a text; a position covered by one
  of the recorded matches; and the scrubber built from no configuration.
\<close>

definition passes :: "PIIScrubber \<Rightarrow> (regexp \<times> jstring) list" where
  "passes this =
     (if cfg_maskEmails this then [(email, cfg_placeholder this)] else [])
     @ (if cfg_maskPhones this then [(phone, cfg_placeholder this)] else [])
     @ (if cfg_maskSSNs this then [(ssn, cfg_placeholder this)] else [])
     @ (if cfg_maskCreditCards this then [(creditCard, cfg_placeholder this)] else [])
     @ (if cfg_maskIPAddresses this then [(ipAddress, cfg_placeholder this)] else [])
     @ [(apiKey, js ''$1: '' @ cfg_placeholder this),
        (githubToken, cfg_placeholder this),
        (stripeKey, cfg_placeholder this)]
     @ map (\<lambda>pattern. (pattern, cfg_placeholder this)) (cfg_maskCustomPatterns this)"

definition run_passes :: "jstring \<Rightarrow> (regexp \<times> jstring) list \<Rightarrow> jstring" where
  "run_passes text ps = foldl (\<lambda>s (re, tpl). replace s re tpl) text ps"

definition covered :: "(nat \<times> mstate) list \<Rightarrow> nat \<Rightarrow> bool" where
  "covered ms j = list_ex (\<lambda>(a, st). a \<le> j \<and> (j < fst st \<or> j = a)) ms"



definition advances :: "jstring \<Rightarrow> mstate \<Rightarrow> mstate \<Rightarrow> bool" where
  "advances s st st' = (fst st \<le> fst st' \<and> (fst st \<le> length s \<longrightarrow> fst st' \<le> length s))"

definition default_scrubber :: PIIScrubber where
  "default_scrubber = new_PIIScrubber empty_config"

text \<open>
  A string in which no pass finds a match; a value all of whose string leaves and keys
  are such strings; and a value in which the keys of every object are distinct.
\<close>

definition quiet :: "PIIScrubber \<Rightarrow> jstring \<Rightarrow> bool" where
  "quiet this s = list_all (\<lambda>(re, tpl). scan re s 0 = []) (passes this)"

fun settled :: "PIIScrubber \<Rightarrow> json \<Rightarrow> bool"
and settled_items :: "PIIScrubber \<Rightarrow> json list \<Rightarrow> bool"
and settled_entries :: "PIIScrubber \<Rightarrow> (jstring \<times> json) list \<Rightarrow> bool"
where
  "settled this (JStr s) = quiet this s"
| "settled this (JArr items) = settled_items this items"
| "settled this (JObj entries) = settled_entries this entries"
| "settled this JNull = True"
| "settled this JUndefined = True"
| "settled this (JBool b) = True"
| "settled this (JNum n) = True"
| "settled_items this [] = True"
| "settled_items this (item # items) = (settled this item \<and> settled_items this items)"
| "settled_entries this [] = True"
| "settled_entries this ((key, val) # entries) =
     (quiet this key \<and> settled this val \<and> settled_entries this entries)"

fun distinct_keys :: "json \<Rightarrow> bool"
and distinct_keys_items :: "json list \<Rightarrow> bool"
and distinct_keys_entries :: "(jstring \<times> json) list \<Rightarrow> bool"
where
  "distinct_keys (JArr items) = distinct_keys_items items"
| "distinct_keys (JObj entries) = (distinct (map fst entries) \<and> distinct_keys_entries entries)"
| "distinct_keys JNull = True"
| "distinct_keys JUndefined = True"
| "distinct_keys (JBool b) = True"
| "distinct_keys (JNum n) = True"
| "distinct_keys (JStr s) = True"
| "distinct_keys_items [] = True"
| "distinct_keys_items (item # items) = (distinct_keys item \<and> distinct_keys_items items)"
| "distinct_keys_entries [] = True"
| "distinct_keys_entries ((key, val) # entries) =
     (distinct_keys val \<and> distinct_keys_entries entries)"

text \<open>Example values: a contact record, and the scrubber whose toggles are all off.\<close>

definition contact :: json where
  "contact = JObj [(js ''email'', JStr (js ''a@b.co''))]"

definition only_credentials :: PIIScrubber where
  "only_credentials = new_PIIScrubber \<lparr>maskEmails = Some False, maskPhones = Some False,
     maskSSNs = Some False, maskCreditCards = Some False, maskIPAddresses = Some False,
     maskCustomPatterns = None, placeholder = None\<rparr>"

section \<open>Properties\<close>

subsection \<open>Field paths of a root that is not an object\<close>

lemma extract_not_object: "\<not> is_object v \<Longrightarrow> extractFieldPaths v prefix = []"
  by (cases v) simp_all

text \<open>
  Claim C9. On a root that is \<^verbatim>\<open>null\<close>, \<^verbatim>\<open>undefined\<close> or a scalar (string, number,
  boolean) the extraction of field paths returns the empty sequence, and classification
  then returns the empty result (no classifications, \<open>totalFields = 0\<close>) without issuing
  a request to the reasoning service and without an error. On the object
  \<^verbatim>\<open>{a:{b:1}}\<close> the extracted paths are \<^verbatim>\<open>a\<close> and \<^verbatim>\<open>a.b\<close>.
\<close>

theorem scalar_root_skips_classification:
  "(\<not> is_object v \<longrightarrow>
      extractFieldPaths v [] = [] \<and>
      classifyData service parse startTime endTime v =
        ([], Inr \<lparr>classifications = [],
                  summary = \<lparr>totalFields = 0, articlesFound = [], highSensitivityFields = 0,
                              processingTime = endTime - startTime\<rparr>\<rparr>))
   \<and> extractFieldPaths (JObj [(js ''a'', JObj [(js ''b'', JNum 1)])]) [] = [js ''a'', js ''a.b'']"
  by (simp add: extract_not_object classifyData_def split_length_def js_def)

theorem scalar_root_skips_classification_witness:
  "\<not> is_object (JStr (js ''x'')) \<and> extractFieldPaths (JStr (js ''x'')) [] = []
   \<and> fst (classifyData (\<lambda>r. Rejected) (\<lambda>t. None) 0 5 (JStr (js ''x''))) = []"
  using scalar_root_skips_classification [of "JStr (js ''x'')" "\<lambda>r. Rejected" "\<lambda>t. None" 0 5]
  by simp

subsection \<open>Validation of the parsed response\<close>








subsection \<open>The structural sample\<close>

lemma typeof_tag: "typeof v \<in> set type_tags"
  by (cases v) (simp_all add: type_tags_def)








lemma typeof_erase: "typeof (erase v) = typeof v"
  by (cases v) simp_all



subsection \<open>Chunked and sequential processing\<close>












subsection \<open>Cleanup\<close>

lemma map_of_filter_other:
  "n \<noteq> file \<Longrightarrow> map_of (filter (\<lambda>(name, _). name \<noteq> file) dir) n = map_of dir n"
  by (induction dir) auto

lemma removable_after_unlink:
  "n \<noteq> file \<Longrightarrow>
   removable c (filter (\<lambda>(name, _). name \<noteq> file) dir) n = removable c dir n"
  by (simp add: removable_def map_of_filter_other)

lemma filter_two:
  "filter (\<lambda>(name, _). name \<notin> S) (filter (\<lambda>(name, _). name \<noteq> x) d)
     = filter (\<lambda>(name, _). name \<notin> insert x S) d"
  by (induction d) auto

lemma cleanup_loop_spec:
  "distinct files \<Longrightarrow>
   cleanup_loop c files dir result = (result', dir') \<Longrightarrow>
     deletedFiles result' = deletedFiles result @ filter (removable c dir) files
   \<and> dir' = filter (\<lambda>(name, _). name \<notin> set (filter (removable c dir) files)) dir
   \<and> filesDeleted result' = filesDeleted result + length (filter (removable c dir) files)
   \<and> totalSizeFreed result' = totalSizeFreed result
        + sum_list (map (\<lambda>n. bytes (the (map_of dir n))) (filter (removable c dir) files))"
proof (induction files arbitrary: dir result)
  case Nil
  then show ?case by simp
next
  case (Cons x xs)
  from Cons.prems have nin: "x \<notin> set xs" and dist: "distinct xs" by auto
  note IH = Cons.IH [OF dist]
  show ?case
  proof (cases "removable c dir x")
    case False
    then have run: "cleanup_loop c xs dir
        (if isEvidenceFile x
         then (if (case statSync dir x of None \<Rightarrow> True | Some st \<Rightarrow> mtime st < c)
               then result\<lparr>filesScanned := filesScanned result + 1,
                           errors := errors result @ [ProcessFailed x]\<rparr>
               else result\<lparr>filesScanned := filesScanned result + 1\<rparr>)
         else result) = (result', dir')"
      using Cons.prems(2)
      by (auto simp: removable_def statSync_def unlinkSync_def Let_def
               split: option.splits if_splits)
    from IH [OF run] False show ?thesis by (auto split: if_splits option.splits)
  next
    case True
    then obtain e where e: "map_of dir x = Some e" "stat_ok e" "mtime e < c" "unlink_ok e"
      and ev: "isEvidenceFile x"
      by (auto simp: removable_def split: option.splits)
    let ?dir = "filter (\<lambda>(name, _). name \<noteq> x) dir"
    let ?res = "result\<lparr>filesScanned := filesScanned result + 1,
                       filesDeleted := filesDeleted result + 1,
                       deletedFiles := deletedFiles result @ [x],
                       totalSizeFreed := totalSizeFreed result + bytes e\<rparr>"
    have run: "cleanup_loop c xs ?dir ?res = (result', dir')"
      using Cons.prems(2) e ev by (simp add: statSync_def unlinkSync_def Let_def)
    have same: "filter (removable c ?dir) xs = filter (removable c dir) xs"
    proof (rule filter_cong [OF refl])
      fix n assume "n \<in> set xs"
      with nin have "n \<noteq> x" by auto
      then show "removable c ?dir n = removable c dir n" by (rule removable_after_unlink)
    qed
    have bytes_same: "map (\<lambda>n. bytes (the (map_of ?dir n))) (filter (removable c dir) xs)
                    = map (\<lambda>n. bytes (the (map_of dir n))) (filter (removable c dir) xs)"
    proof (rule map_cong [OF refl])
      fix n assume "n \<in> set (filter (removable c dir) xs)"
      with nin have "n \<noteq> x" by auto
      then show "bytes (the (map_of ?dir n)) = bytes (the (map_of dir n))"
        by (simp add: map_of_filter_other)
    qed
    have dir_eq: "filter (\<lambda>(name, _). name \<notin> set (filter (removable c dir) xs)) ?dir
                = filter (\<lambda>(name, _). name \<notin> set (x # filter (removable c dir) xs)) dir"
      using filter_two [of "set (filter (removable c dir) xs)" x dir] by simp
    from IH [OF run] True e show ?thesis
      unfolding same bytes_same dir_eq by simp
  qed
qed

lemma sum_bytes_listing:
  "distinct (map fst dir) \<Longrightarrow>
   map (\<lambda>n. bytes (the (map_of dir n))) (filter P (map fst dir))
     = map (\<lambda>(n, e). bytes e) (filter (\<lambda>(n, e). P n) dir)"
proof (induction dir)
  case Nil
  then show ?case by simp
next
  case (Cons a dir)
  obtain k e where a: "a = (k, e)" by (cases a)
  from Cons.prems a have k: "k \<notin> fst ` set dir" and d: "distinct (map fst dir)" by auto
  have "map (\<lambda>n. bytes (the (map_of (a # dir) n))) (filter P (map fst dir))
      = map (\<lambda>n. bytes (the (map_of dir n))) (filter P (map fst dir))"
    using k a by (intro map_cong) auto
  with Cons.IH [OF d] a show ?case by simp
qed

text \<open>
  Claim C10. On a directory listing with distinct names, every file the cleanup deletes
  has a name matching one of the evidence patterns and a modification time before the
  cutoff (now minus the maximal age); the directory afterwards is the directory before
  without the files named in \<open>deletedFiles\<close>, every other entry being as it was; the
  names in \<open>deletedFiles\<close> are distinct, \<open>filesDeleted\<close> is their number and
  \<open>totalSizeFreed\<close> the sum of the sizes of the entries removed. A missing or unreadable
  directory is left as it is and nothing is reported deleted.
\<close>

theorem cleanup_deletes_only_old_evidence:
  assumes "distinct (map fst dir)"
    and "cleanupOldFiles (Listing dir) maxAgeHours now = (result, after)"
  shows "(\<forall>file \<in> set (deletedFiles result).
            isEvidenceFile file \<and>
            (\<exists>e. (file, e) \<in> set dir \<and> mtime e < now - maxAgeHours * 60 * 60 * 1000))
       \<and> after = Listing (filter (\<lambda>(name, e). name \<notin> set (deletedFiles result)) dir)
       \<and> filesDeleted result = length (deletedFiles result)
       \<and> distinct (deletedFiles result)
       \<and> totalSizeFreed result =
           (\<Sum>(name, e) \<leftarrow> filter (\<lambda>(name, e). name \<in> set (deletedFiles result)) dir. bytes e)
       \<and> cleanupOldFiles Missing maxAgeHours now = (empty_result, Missing)
       \<and> cleanupOldFiles Unreadable maxAgeHours now
           = (empty_result\<lparr>errors := [ScanFailed]\<rparr>, Unreadable)"
proof -
  let ?c = "now - maxAgeHours * 60 * 60 * 1000"
  let ?D = "filter (removable ?c dir) (map fst dir)"
  obtain dir' where run: "cleanup_loop ?c (map fst dir) dir empty_result = (result, dir')"
    and after: "after = Listing dir'"
    using assms(2) by (auto simp: cleanupOldFiles_def Let_def split: prod.splits)
  from cleanup_loop_spec [OF assms(1) run]
  have D: "deletedFiles result = ?D"
    and d': "dir' = filter (\<lambda>(name, _). name \<notin> set ?D) dir"
    and n: "filesDeleted result = length ?D"
    and b: "totalSizeFreed result = sum_list (map (\<lambda>n. bytes (the (map_of dir n))) ?D)"
    by (simp_all add: empty_result_def)
  have 1: "\<forall>file \<in> set ?D. isEvidenceFile file \<and> (\<exists>e. (file, e) \<in> set dir \<and> mtime e < ?c)"
    by (auto simp: removable_def split: option.splits dest: map_of_SomeD)
  have 4: "distinct ?D" using assms(1) by simp
  have mem: "n \<in> set ?D \<longleftrightarrow> removable ?c dir n" if "(n, e) \<in> set dir" for n e
  proof -
    from that have "n \<in> set (map fst dir)" by force
    then show ?thesis by simp
  qed
  have f: "filter (\<lambda>(name, e). name \<in> set ?D) dir = filter (\<lambda>(name, e). removable ?c dir name) dir"
  proof (rule filter_cong [OF refl])
    fix p assume "p \<in> set dir"
    then show "(case p of (name, e) \<Rightarrow> name \<in> set ?D)
             = (case p of (name, e) \<Rightarrow> removable ?c dir name)"
      using mem [of "fst p" "snd p"] by (simp add: case_prod_unfold)
  qed
  have 5: "totalSizeFreed result
          = (\<Sum>(name, e) \<leftarrow> filter (\<lambda>(name, e). name \<in> set ?D) dir. bytes e)"
    unfolding b f by (simp add: sum_bytes_listing [OF assms(1)])
  from 1 4 5 n d' after show ?thesis unfolding D by (simp add: cleanupOldFiles_def)
qed

theorem cleanup_deletes_only_old_evidence_witness:
  "distinct (map fst ex_dir)
   \<and> cleanupOldFiles (Listing ex_dir) 24 100000000 = (ex_result, Listing (tl ex_dir))
   \<and> Listing (tl ex_dir)
       = Listing (filter (\<lambda>(name, e). name \<notin> set (deletedFiles ex_result)) ex_dir)
   \<and> filesDeleted ex_result = length (deletedFiles ex_result)"
proof -
  have h1: "distinct (map fst ex_dir)" by code_simp
  have h2: "cleanupOldFiles (Listing ex_dir) 24 100000000 = (ex_result, Listing (tl ex_dir))"
    by code_simp
  from cleanup_deletes_only_old_evidence [OF h1 h2] h1 h2 show ?thesis by blast
qed

subsection \<open>Passes over a string\<close>

lemma run_passes_Nil [simp]: "run_passes text [] = text"
  by (simp add: run_passes_def)

lemma run_passes_Cons [simp]:
  "run_passes text ((re, tpl) # ps) = run_passes (replace text re tpl) ps"
  by (simp add: run_passes_def)

lemma run_passes_append [simp]:
  "run_passes text (ps @ qs) = run_passes (run_passes text ps) qs"
  by (simp add: run_passes_def)

lemma run_passes_custom:
  "foldl (\<lambda>scrubbed pattern. replace scrubbed pattern ph) t0 ps
     = run_passes t0 (map (\<lambda>pattern. (pattern, ph)) ps)"
  by (induction ps arbitrary: t0) simp_all

lemma scrubString_passes: "scrubString this text = run_passes text (passes this)"
  by (simp add: scrubString_def passes_def Let_def run_passes_custom)


lemma covered_Nil [simp]: "\<not> covered [] j"
  by (simp add: covered_def)

lemma replace_no_match: "scan re s 0 = [] \<Longrightarrow> replace s re tpl = s"
  by (simp add: replace_def found_def)

lemma advances_refl [simp]: "advances s st st"
  by (simp add: advances_def)


lemma advances_fst: "fst a = fst a' \<Longrightarrow> fst b = fst b' \<Longrightarrow> advances s a b = advances s a' b'"
  by (simp add: advances_def)














lemma scrub_phone_after_address:
  "scrubString default_scrubber (js ''a@b.co5551234567'') = js ''a@b.co[REDACTED]''"
  by code_simp


lemma scrub_second_pass:
  "scrubString default_scrubber (js ''a@b.co[REDACTED]'') = js ''[REDACTED][REDACTED]''"
  by code_simp







subsection \<open>Scrubbing twice\<close>

lemma run_passes_quiet:
  "list_all (\<lambda>(re, tpl). scan re s 0 = []) ps \<Longrightarrow> run_passes s ps = s"
  by (induction ps) (auto simp: replace_no_match)

lemma quiet_fixed: "quiet this s \<Longrightarrow> scrubString this s = s"
  by (simp add: quiet_def scrubString_passes run_passes_quiet)

lemma keys_obj_set: "fst ` set (obj_set acc k v) = insert k (fst ` set acc)"
  by (induction acc k v rule: obj_set.induct) auto

lemma distinct_obj_set: "distinct (map fst acc) \<Longrightarrow> distinct (map fst (obj_set acc k v))"
  by (induction acc k v rule: obj_set.induct) (auto simp: keys_obj_set)

lemma distinct_keys_obj_set:
  "distinct_keys_entries acc \<Longrightarrow> distinct_keys v \<Longrightarrow> distinct_keys_entries (obj_set acc k v)"
  by (induction acc k v rule: obj_set.induct) auto

lemma obj_set_new: "k \<notin> fst ` set acc \<Longrightarrow> obj_set acc k v = acc @ [(k, v)]"
  by (induction acc k v rule: obj_set.induct) auto

lemma scrub_distinct_keys:
  "distinct_keys (scrubObject this v)"
  "distinct_keys_items (scrubItems this items)"
  "distinct (map fst acc) \<Longrightarrow> distinct_keys_entries acc \<Longrightarrow>
     distinct (map fst (scrubEntries this acc entries))
     \<and> distinct_keys_entries (scrubEntries this acc entries)"
proof (induction this v and this items and this acc entries
       rule: scrubObject_scrubItems_scrubEntries.induct)
  case (11 this scrubbed key val entries)
  then show ?case by (simp add: distinct_obj_set distinct_keys_obj_set)
qed simp_all

lemma settled_fixed:
  "distinct_keys v \<Longrightarrow> settled this v \<Longrightarrow> scrubObject this v = v"
  "distinct_keys_items items \<Longrightarrow> settled_items this items \<Longrightarrow> scrubItems this items = items"
  "distinct (map fst (acc @ entries)) \<Longrightarrow> distinct_keys_entries entries \<Longrightarrow>
     settled_entries this entries \<Longrightarrow> scrubEntries this acc entries = acc @ entries"
proof (induction this v and this items and this acc entries
       rule: scrubObject_scrubItems_scrubEntries.induct)
  case (7 this entries)
  then show ?case by simp
next
  case (11 this scrubbed key val entries)
  from "11.prems" have k: "scrubString this key = key" and v: "scrubObject this val = val"
    using "11.IH"(1) by (simp_all add: quiet_fixed)
  from "11.prems"(1) have "key \<notin> fst ` set scrubbed" by auto
  then have o: "obj_set scrubbed key val = scrubbed @ [(key, val)]" by (rule obj_set_new)
  from "11.IH"(2) [of] "11.prems" k v o show ?case by simp
qed (simp_all add: quiet_fixed)

text \<open>
  Claim C4, amended. When no pass finds a match in any string leaf or key of the scrubbed
  data, scrubbing the scrubbed data again under the same configuration returns it
  unchanged.
\<close>

theorem rescrub_settled_unchanged:
  "settled this (scrubObject this v) \<Longrightarrow>
   scrubObject this (scrubObject this v) = scrubObject this v"
  by (rule settled_fixed(1) [OF scrub_distinct_keys(1)])

text \<open>
  Claim C4 fails as stated: under the default configuration the string
  \<^verbatim>\<open>a@b.co5551234567\<close> is scrubbed to \<^verbatim>\<open>a@b.co[REDACTED]\<close>, and that in turn to
  \<^verbatim>\<open>[REDACTED][REDACTED]\<close>.
\<close>

theorem scrub_not_idempotent:
  "scrubObject default_scrubber (scrubObject default_scrubber (JStr (js ''a@b.co5551234567'')))
     = JStr (js ''[REDACTED][REDACTED]'')
   \<and> scrubObject default_scrubber (JStr (js ''a@b.co5551234567'')) = JStr (js ''a@b.co[REDACTED]'')
   \<and> js ''[REDACTED][REDACTED]'' \<noteq> js ''a@b.co[REDACTED]''"
  by (simp add: scrub_phone_after_address scrub_second_pass) (simp add: js_def)


theorem rescrub_settled_unchanged_witness:
  "settled default_scrubber (scrubObject default_scrubber contact)
   \<and> scrubObject default_scrubber (scrubObject default_scrubber contact)
       = scrubObject default_scrubber contact
   \<and> scrubObject default_scrubber contact = JObj [(js ''email'', JStr (js ''[REDACTED]''))]"
proof -
  have v: "scrubObject default_scrubber contact = JObj [(js ''email'', JStr (js ''[REDACTED]''))]"
    by code_simp
  have h: "settled default_scrubber (scrubObject default_scrubber contact)"
    unfolding v by code_simp
  from rescrub_settled_unchanged [OF h] h v show ?thesis by simp
qed

subsection \<open>Credentials and the result of the entry point\<close>

text \<open>
  Claim C3 on the code. With every toggle off, the text \<^verbatim>\<open>api_key=abc123\<close> matches the
  API-key pattern as a whole, its one group capturing the value \<^verbatim>\<open>abc123\<close>, and is
  scrubbed to \<^verbatim>\<open>abc123: [REDACTED]\<close>: the template \<^verbatim>\<open>$1: [REDACTED]\<close> puts the
  captured value back. With the default configuration the Stripe key of the test suite,
  which matches the Stripe pattern as a whole, loses only the ten digits the phone pass
  takes.
\<close>

theorem credential_value_survives:
  "map (\<lambda>(a, st). (a, fst st, snd st 1)) (scan apiKey (js ''api_key=abc123'') 0)
     = [(0, 14, Some (8, 14))]
   \<and> scrubString only_credentials (js ''api_key=abc123'') = js ''abc123: [REDACTED]''
   \<and> map (\<lambda>(a, st). (a, fst st))
         (scan stripeKey (js ''sk_test_1234567890abcdefghijklmnopqrstuvwxyz'') 0) = [(0, 44)]
   \<and> scrubString default_scrubber (js ''sk_test_1234567890abcdefghijklmnopqrstuvwxyz'')
       = js ''sk_test_[REDACTED]abcdefghijklmnopqrstuvwxyz''"
  by code_simp

lemma keys_scrubEntries:
  "fst ` set (scrubEntries this acc entries)
     = fst ` set acc \<union> (\<lambda>(key, val). scrubString this key) ` set entries"
proof (induction entries arbitrary: acc)
  case Nil
  then show ?case by simp
next
  case (Cons e entries)
  obtain k v where e: "e = (k, v)" by (cases e)
  show ?case unfolding e by (simp add: Cons.IH keys_obj_set)
qed

lemma get_prop_absent:
  "k \<notin> fst ` set entries \<Longrightarrow> get_prop (JObj entries) k = Inr JUndefined"
  by (simp add: map_of_eq_None_iff [THEN iffD2])

lemma merged_keys:
  "js ''stats'' \<notin> set (map (scrubString default_scrubber)
      [js ''email'', js ''githubOrg'', js ''exportTimestamp'', js ''github'', js ''stripe''])"
  by code_simp

text \<open>
  Claim C2 on the code. \<^verbatim>\<open>scrubPII\<close> returns the scrubbed value itself, not a record
  with \<^verbatim>\<open>scrubbedData\<close>, \<^verbatim>\<open>stats\<close> and \<^verbatim>\<open>bytesReduced\<close>: on the merged
  data of the pipeline, whatever the exported values, the scrubbed object has no
  property \<^verbatim>\<open>stats\<close> and the step that reads \<^verbatim>\<open>scrubResult.stats.itemsFound\<close>
  throws.
\<close>

theorem scrub_step_throws:
  "scrub_step (mergedData flags_email flags_githubOrg timestamp githubData stripeData)
     = Inl TypeError"
proof -
  let ?m = "mergedData flags_email flags_githubOrg timestamp githubData stripeData"
  obtain entries where m: "?m = JObj entries"
    and keys: "map fst entries
       = [js ''email'', js ''githubOrg'', js ''exportTimestamp'', js ''github'', js ''stripe'']"
    by (simp add: mergedData_def)
  have r: "scrubPII ?m None = JObj (scrubEntries default_scrubber [] entries)"
    by (simp add: scrubPII_def m nullish_def default_scrubber_def)
  have "(\<lambda>(key, val). scrubString default_scrubber key) ` set entries
          = set (map (scrubString default_scrubber) (map fst entries))"
    by (auto simp: image_iff case_prod_unfold)
  with merged_keys keys
  have "js ''stats'' \<notin> fst ` set (scrubEntries default_scrubber [] entries)"
    by (simp add: keys_scrubEntries)
  then have "get_prop (scrubPII ?m None) (js ''stats'') = Inr JUndefined"
    unfolding r by (rule get_prop_absent)
  then show ?thesis by (simp add: scrub_step_def)
qed

end
